theory Spec2Isabelle
  imports Complex_Main
begin

section \<open>Scene-graph data\<close>

text \<open>
  The application (\<^verbatim>\<open>src/main.js\<close>, and its smaller sibling \<^verbatim>\<open>app.js\<close>) keeps its
  state in module-level variables and reacts to events of a single-threaded event loop:
  user input, loader callbacks, timers and rendered frames. The model is a record of those
  variables and one function per source function; an \<^verbatim>\<open>async\<close> function is split at its
  \<^verbatim>\<open>await\<close> into the part that runs at the call and the part that runs when the awaited
  promise settles.

  Debug logging (\<^verbatim>\<open>log\<close>, \<^verbatim>\<open>console\<close>) and the DOM chrome other than the status line are
  not part of the model.
\<close>

type_synonym vec3 = "real \<times> real \<times> real"
type_synonym quat = "real \<times> real \<times> real \<times> real"
type_synonym clip = nat

text \<open>A material with its optional texture \<^verbatim>\<open>map\<close>; resources are named by handles.\<close>

datatype material = Material (matId: nat) (mapId: "nat option")

text \<open>\<^verbatim>\<open>child.material\<close>: absent, one material, or an array of materials.\<close>

datatype material_slot = NoMaterial | OneMaterial material | MaterialArray "material list"

datatype object3d =
  Object3D (isMesh: bool) (geometryId: nat) (materialSlot: material_slot)
    (children: "object3d list")

text \<open>
  The root object of a loaded asset. \<open>ident\<close> is the identity of the JavaScript object;
  \<open>mixer\<close> is \<^verbatim>\<open>userData.mixer\<close>, the clip whose action is playing. Only \<^verbatim>\<open>app.js\<close>
  writes \<open>visible\<close>.
\<close>

record model =
  ident :: nat
  tree :: object3d
  position :: vec3
  quaternion :: quat
  scale :: vec3
  visible :: bool
  mixer :: "clip option"

record gltf =
  gscene :: model
  animations :: "clip list"

section \<open>Resource disposal (\<^verbatim>\<open>disposeModel\<close>)\<close>

datatype dispose_call = GeometryDispose nat | TextureDispose nat | MaterialDispose nat

text \<open>\<^verbatim>\<open>if (m.map) m.map.dispose(); m.dispose();\<close>\<close>

definition disposeMaterial :: "material \<Rightarrow> dispose_call list" where
  "disposeMaterial m =
     (case mapId m of Some t \<Rightarrow> [TextureDispose t] | None \<Rightarrow> []) @ [MaterialDispose (matId m)]"

text \<open>The callback that \<^verbatim>\<open>disposeModel\<close> passes to \<^verbatim>\<open>traverse\<close>.\<close>

definition disposeChild :: "object3d \<Rightarrow> dispose_call list" where
  "disposeChild child =
     (if isMesh child then
        GeometryDispose (geometryId child) #
        (case materialSlot child of
           NoMaterial \<Rightarrow> []
         | MaterialArray ms \<Rightarrow> concat (map disposeMaterial ms)
         | OneMaterial m \<Rightarrow> disposeMaterial m)
      else [])"

text \<open>\<^verbatim>\<open>Object3D.traverse\<close>: the callback on the node itself, then on every descendant.\<close>

fun traverse :: "(object3d \<Rightarrow> 'a list) \<Rightarrow> object3d \<Rightarrow> 'a list" where
  "traverse f (Object3D b g m cs) = f (Object3D b g m cs) @ concat (map (traverse f) cs)"

definition disposeModel :: "model \<Rightarrow> dispose_call list" where
  "disposeModel m = traverse disposeChild (tree m)"

section \<open>State of \<^verbatim>\<open>src/main.js\<close>\<close>

datatype loader_kind = Draco | Fallback

text \<open>Which loader callback of a \<^verbatim>\<open>loadModelWithTimeout\<close> call is still to come.\<close>

datatype phase = DracoPending | FallbackPending | Finished

text \<open>
  One call of \<^verbatim>\<open>loadModelWithTimeout\<close> together with the suspended
  \<^verbatim>\<open>loadModelForCurrentMode\<close> that awaits it: the arguments the continuation captured,
  whether the promise is settled, and whether the timeout timer is still armed.
\<close>

record load =
  l_url :: "string option"
  l_position :: vec3
  l_quaternion :: quat
  l_scale :: vec3
  l_phase :: phase
  l_timer :: bool
  l_settled :: bool

text \<open>
  A suspended call of \<^verbatim>\<open>initializeHitTesting(session)\<close>: the session it was given and
  the \<^verbatim>\<open>await\<close> it is waiting at.
\<close>

datatype init_stage = AwaitReferenceSpace | AwaitHitTestSource

record init =
  i_session :: nat
  i_stage :: init_stage

text \<open>The texts written to the status line.\<close>

datatype status_msg =
    StatusInitial
  | StatusLoading int
  | StatusActive int
  | StatusError int
  | StatusSelected int
  | StatusCycling int
  | StatusTooClose
  | StatusTooFar
  | StatusPlaced
  | StatusPointAtSurface
  | StatusARActive
  | StatusWebActive

record state =
  currentMode :: int
  loadingModels :: "int \<rightharpoonup> bool"
  preloadedModels :: "int \<rightharpoonup> gltf"
  currentModel :: "model option"
  scene :: "model list"
  isARMode :: bool
  isPresenting :: bool
  reticleVisible :: bool
  reticleMatrix :: "vec3 \<times> quat"
  cameraPosition :: vec3
  session :: "nat option"
  hitTestSource :: "nat option"
  hitTestSourceRequested :: bool
  inits :: "nat \<rightharpoonup> init"
  referenceSpaceRequests :: "nat list"
  hitTestSourceRequests :: "nat list"
  endListeners :: "nat list"
  status :: status_msg
  statusClass :: string
  disposeLog :: "dispose_call list"
  loaderCalls :: "(loader_kind \<times> string option) list"
  loads :: "nat \<rightharpoonup> load"
  preloads :: "nat \<rightharpoonup> int"
  nextRequest :: nat
  nextIdent :: nat

text \<open>The descriptor table \<^verbatim>\<open>MODELS\<close> (the same in \<^verbatim>\<open>config.js\<close> and in the fallback literal).\<close>

definition MODELS :: "int \<rightharpoonup> string" where
  "MODELS = [1 \<mapsto> ''./assets/models/modelo-final.glb'',
             2 \<mapsto> ''./assets/models/movimiento2.glb'',
             3 \<mapsto> ''./assets/models/movimiento3.glb'']"

text \<open>Truthiness of \<^verbatim>\<open>loadingModels[currentMode]\<close>: a missing key reads \<^verbatim>\<open>undefined\<close>.\<close>

definition truthy :: "bool option \<Rightarrow> bool" where
  "truthy v = (v = Some True)"

text \<open>
  \<^verbatim>\<open>scene.remove(o)\<close> and \<^verbatim>\<open>scene.add(o)\<close> on the asset children of the scene (lights,
  reticle, controller and floor are left out). \<^verbatim>\<open>add\<close> first takes the object out of its
  parent, so an object is never a child twice.
\<close>

definition sceneRemove :: "model \<Rightarrow> model list \<Rightarrow> model list" where
  "sceneRemove m sc = filter (\<lambda>x. ident x \<noteq> ident m) sc"

definition sceneAdd :: "model \<Rightarrow> model list \<Rightarrow> model list" where
  "sceneAdd m sc = sceneRemove m sc @ [m]"

section \<open>The asset slot coordinator (\<^verbatim>\<open>loadModelForCurrentMode\<close>)\<close>

text \<open>
  \<^verbatim>\<open>loadModelWithTimeout(url, 30000)\<close> up to the point where its promise is returned: the
  timer is armed and the Draco loader is started.
\<close>

definition loadModelWithTimeout :: "string option \<Rightarrow> vec3 \<Rightarrow> quat \<Rightarrow> vec3 \<Rightarrow> state \<Rightarrow> state" where
  "loadModelWithTimeout url pos quat sc s =
     s\<lparr>loaderCalls := loaderCalls s @ [(Draco, url)],
       loads := (loads s)(nextRequest s \<mapsto>
         \<lparr>l_url = url, l_position = pos, l_quaternion = quat, l_scale = sc,
          l_phase = DracoPending, l_timer = True, l_settled = False\<rparr>),
       nextRequest := Suc (nextRequest s)\<rparr>"

text \<open>
  The body of the \<^verbatim>\<open>try\<close> once \<^verbatim>\<open>currentModel\<close> has been assigned the object \<open>m\<close>:
  copy the pose, add to the scene, start the first animation clip, report.
\<close>

definition attachModel :: "gltf \<Rightarrow> model \<Rightarrow> vec3 \<Rightarrow> quat \<Rightarrow> vec3 \<Rightarrow> state \<Rightarrow> state" where
  "attachModel g m pos quat sc s =
     (let m1 = m\<lparr>position := pos, quaternion := quat, scale := sc\<rparr>;
          m2 = (case animations g of [] \<Rightarrow> m1 | c # _ \<Rightarrow> m1\<lparr>mixer := Some c\<rparr>)
      in s\<lparr>currentModel := Some m2,
           scene := sceneAdd m2 (scene s),
           status := StatusActive (currentMode s),
           statusClass := []\<rparr>)"

text \<open>The \<^verbatim>\<open>catch\<close> block.\<close>

definition catchError :: "state \<Rightarrow> state" where
  "catchError s = s\<lparr>status := StatusError (currentMode s), statusClass := ''error''\<rparr>"

text \<open>The \<^verbatim>\<open>finally\<close> block: \<^verbatim>\<open>loadingModels[currentMode] = false\<close>.\<close>

definition finallyClear :: "state \<Rightarrow> state" where
  "finallyClear s = s\<lparr>loadingModels := (loadingModels s)(currentMode s \<mapsto> False)\<rparr>"

text \<open>
  \<^verbatim>\<open>loadModelForCurrentMode(position, quaternion, scale)\<close> from its call to its first
  suspension (or to its end, on the preloaded path, which has no \<^verbatim>\<open>await\<close>).
  \<open>clone\<close> is \<^verbatim>\<open>Object3D.clone\<close> of the rendering library; the copy is a new object.
\<close>

definition loadModelForCurrentMode ::
  "(model \<Rightarrow> model) \<Rightarrow> vec3 \<Rightarrow> quat \<Rightarrow> vec3 \<Rightarrow> state \<Rightarrow> state" where
  "loadModelForCurrentMode clone pos quat sc s =
     (let url = MODELS (currentMode s) in
      if truthy (loadingModels s (currentMode s)) then s
      else
        let s1 = (case currentModel s of
                    Some old \<Rightarrow>
                      s\<lparr>scene := sceneRemove old (scene s),
                        disposeLog := disposeLog s @ disposeModel old,
                        currentModel := None\<rparr>
                  | None \<Rightarrow> s);
            s2 = s1\<lparr>loadingModels := (loadingModels s1)(currentMode s1 \<mapsto> True),
                    status := StatusLoading (currentMode s1),
                    statusClass := ''loading''\<rparr>
        in case preloadedModels s2 (currentMode s2) of
             Some g \<Rightarrow>
               finallyClear
                 (attachModel g ((clone (gscene g))\<lparr>ident := nextIdent s2\<rparr>) pos quat sc
                    (s2\<lparr>nextIdent := Suc (nextIdent s2)\<rparr>))
           | None \<Rightarrow> loadModelWithTimeout url pos quat sc s2)"

section \<open>Loader callbacks and the timeout\<close>

text \<open>A decoded asset is a new JavaScript object: it gets the next free identity.\<close>

definition stamp :: "nat \<Rightarrow> gltf \<Rightarrow> gltf" where
  "stamp n g = g\<lparr>gscene := (gscene g)\<lparr>ident := n\<rparr>\<rparr>"

text \<open>
  \<^verbatim>\<open>resolve(gltf)\<close> on the promise of load \<open>k\<close>. A settled promise ignores it. Otherwise
  the suspended \<^verbatim>\<open>loadModelForCurrentMode\<close> resumes after its \<^verbatim>\<open>await\<close>:
  \<^verbatim>\<open>currentModel = gltf.scene\<close>, the rest of the \<^verbatim>\<open>try\<close>, then \<^verbatim>\<open>finally\<close>.
\<close>

definition resolveLoad :: "nat \<Rightarrow> gltf \<Rightarrow> state \<Rightarrow> state" where
  "resolveLoad k g s =
     (case loads s k of
        None \<Rightarrow> s
      | Some l \<Rightarrow>
          if l_settled l then s
          else finallyClear
                 (attachModel g (gscene g) (l_position l) (l_quaternion l) (l_scale l)
                    (s\<lparr>loads := (loads s)(k \<mapsto> l\<lparr>l_settled := True\<rparr>)\<rparr>)))"

text \<open>\<^verbatim>\<open>reject(error)\<close>: the \<^verbatim>\<open>await\<close> throws, so \<^verbatim>\<open>catch\<close> and \<^verbatim>\<open>finally\<close> run.\<close>

definition rejectLoad :: "nat \<Rightarrow> state \<Rightarrow> state" where
  "rejectLoad k s =
     (case loads s k of
        None \<Rightarrow> s
      | Some l \<Rightarrow>
          if l_settled l then s
          else finallyClear (catchError (s\<lparr>loads := (loads s)(k \<mapsto> l\<lparr>l_settled := True\<rparr>)\<rparr>)))"

text \<open>The \<^verbatim>\<open>setTimeout\<close> callback; it runs only while the timer is armed.\<close>

definition onTimeout :: "nat \<Rightarrow> state \<Rightarrow> state" where
  "onTimeout k s =
     (case loads s k of
        None \<Rightarrow> s
      | Some l \<Rightarrow>
          if l_timer l
          then rejectLoad k (s\<lparr>loads := (loads s)(k \<mapsto> l\<lparr>l_timer := False\<rparr>)\<rparr>)
          else s)"

text \<open>
  The \<^verbatim>\<open>onLoad\<close> callback of the Draco loader: \<^verbatim>\<open>clearTimeout\<close>, then \<^verbatim>\<open>resolve(gltf)\<close>.
  A loader calls back once, so the callback runs only in phase \<open>DracoPending\<close>.
\<close>

definition onDracoLoaded :: "nat \<Rightarrow> gltf \<Rightarrow> state \<Rightarrow> state" where
  "onDracoLoaded k g s =
     (case loads s k of
        None \<Rightarrow> s
      | Some l \<Rightarrow>
          if l_phase l = DracoPending
          then resolveLoad k (stamp (nextIdent s) g)
                 (s\<lparr>nextIdent := Suc (nextIdent s),
                    loads := (loads s)(k \<mapsto> l\<lparr>l_phase := Finished, l_timer := False\<rparr>)\<rparr>)
          else s)"

text \<open>The \<^verbatim>\<open>onError\<close> callback of the Draco loader starts the fallback loader.\<close>

definition onDracoError :: "nat \<Rightarrow> state \<Rightarrow> state" where
  "onDracoError k s =
     (case loads s k of
        None \<Rightarrow> s
      | Some l \<Rightarrow>
          if l_phase l = DracoPending
          then s\<lparr>loaderCalls := loaderCalls s @ [(Fallback, l_url l)],
                 loads := (loads s)(k \<mapsto> l\<lparr>l_phase := FallbackPending\<rparr>)\<rparr>
          else s)"

definition onFallbackLoaded :: "nat \<Rightarrow> gltf \<Rightarrow> state \<Rightarrow> state" where
  "onFallbackLoaded k g s =
     (case loads s k of
        None \<Rightarrow> s
      | Some l \<Rightarrow>
          if l_phase l = FallbackPending
          then resolveLoad k (stamp (nextIdent s) g)
                 (s\<lparr>nextIdent := Suc (nextIdent s),
                    loads := (loads s)(k \<mapsto> l\<lparr>l_phase := Finished, l_timer := False\<rparr>)\<rparr>)
          else s)"

definition onFallbackError :: "nat \<Rightarrow> state \<Rightarrow> state" where
  "onFallbackError k s =
     (case loads s k of
        None \<Rightarrow> s
      | Some l \<Rightarrow>
          if l_phase l = FallbackPending
          then rejectLoad k
                 (s\<lparr>loads := (loads s)(k \<mapsto> l\<lparr>l_phase := Finished, l_timer := False\<rparr>)\<rparr>)
          else s)"

section \<open>Preloading (\<^verbatim>\<open>preloadModel\<close>)\<close>

text \<open>
  \<^verbatim>\<open>preloadModel(url, mode)\<close> as \<^verbatim>\<open>preloadModels\<close> calls it, with \<^verbatim>\<open>url = MODELS[mode]\<close>:
  a cached asset resolves at once, anything else starts the Draco loader.
\<close>

definition preloadModel :: "int \<Rightarrow> state \<Rightarrow> state" where
  "preloadModel mode s =
     (case preloadedModels s mode of
        Some g \<Rightarrow> s
      | None \<Rightarrow>
          s\<lparr>loaderCalls := loaderCalls s @ [(Draco, MODELS mode)],
            preloads := (preloads s)(nextRequest s \<mapsto> mode),
            nextRequest := Suc (nextRequest s)\<rparr>)"

definition onPreloadLoaded :: "nat \<Rightarrow> gltf \<Rightarrow> state \<Rightarrow> state" where
  "onPreloadLoaded k g s =
     (case preloads s k of
        None \<Rightarrow> s
      | Some mode \<Rightarrow>
          s\<lparr>preloadedModels := (preloadedModels s)(mode \<mapsto> stamp (nextIdent s) g),
            nextIdent := Suc (nextIdent s),
            preloads := (preloads s)(k := None)\<rparr>)"

definition onPreloadError :: "nat \<Rightarrow> state \<Rightarrow> state" where
  "onPreloadError k s = s\<lparr>preloads := (preloads s)(k := None)\<rparr>"

section \<open>Interaction (\<^verbatim>\<open>onSelect\<close>, \<^verbatim>\<open>cycleMode\<close>, the routine buttons)\<close>

text \<open>\<^verbatim>\<open>CONFIG.MODEL\<close>: the placement range and the default scale.\<close>

definition minDistance :: real where
  "minDistance = 0.5"

definition maxDistance :: real where
  "maxDistance = 10"

definition defaultScale :: vec3 where
  "defaultScale = (0.3, 0.3, 0.3)"

text \<open>
  \<^verbatim>\<open>Vector3.distanceTo\<close>: the Euclidean distance. Coordinates and distances are real
  numbers here; the rounding of JavaScript's doubles is not modelled.
\<close>

fun distanceTo :: "vec3 \<Rightarrow> vec3 \<Rightarrow> real" where
  "distanceTo (x, y, z) (x', y', z') = sqrt ((x - x')\<^sup>2 + (y - y')\<^sup>2 + (z - z')\<^sup>2)"

text \<open>
  JavaScript's \<^verbatim>\<open>%\<close> on integers: the remainder takes the sign of the dividend.
\<close>

definition js_rem :: "int \<Rightarrow> int \<Rightarrow> int" where
  "js_rem a b = sgn a * (\<bar>a\<bar> mod \<bar>b\<bar>)"

text \<open>\<^verbatim>\<open>currentMode = (currentMode % 3) + 1\<close>\<close>

definition nextMode :: "int \<Rightarrow> int" where
  "nextMode m = js_rem m 3 + 1"

definition cycleMode :: "(model \<Rightarrow> model) \<Rightarrow> state \<Rightarrow> state" where
  "cycleMode clone s =
     (let s1 = s\<lparr>currentMode := nextMode (currentMode s)\<rparr>;
          s2 = s1\<lparr>status := StatusCycling (currentMode s1)\<rparr>
      in case currentModel s2 of
           Some m \<Rightarrow> loadModelForCurrentMode clone (position m) (quaternion m) (scale m) s2
         | None \<Rightarrow> s2)"

text \<open>
  The reticle matrix is a rigid transform, kept as its translation and its rotation:
  \<^verbatim>\<open>setFromMatrixPosition\<close> reads the first, \<^verbatim>\<open>extractRotation\<close> followed by
  \<^verbatim>\<open>setFromRotationMatrix\<close> the second.
\<close>

definition onSelect :: "(model \<Rightarrow> model) \<Rightarrow> state \<Rightarrow> state" where
  "onSelect clone s =
     (if \<not> isPresenting s then s
      else if reticleVisible s then
        let pos = fst (reticleMatrix s);
            distance = distanceTo pos (cameraPosition s)
        in if distance < minDistance then s\<lparr>status := StatusTooClose\<rparr>
           else if distance > maxDistance then s\<lparr>status := StatusTooFar\<rparr>
           else
             let quat = snd (reticleMatrix s);
                 sc = (case currentModel s of Some m \<Rightarrow> scale m | None \<Rightarrow> defaultScale)
             in (loadModelForCurrentMode clone pos quat sc s)\<lparr>status := StatusPlaced\<rparr>
      else if currentModel s \<noteq> None then cycleMode clone s
      else s\<lparr>status := StatusPointAtSurface\<rparr>)"

text \<open>
  The click handler of a routine button; \<open>mode\<close> is \<^verbatim>\<open>parseInt(btn.dataset.mode, 10)\<close>.
\<close>

definition onClickMode :: "(model \<Rightarrow> model) \<Rightarrow> int \<Rightarrow> state \<Rightarrow> state" where
  "onClickMode clone mode s =
     (if mode = 0 then s
      else
        let s1 = s\<lparr>currentMode := mode, status := StatusSelected mode\<rparr>
        in case (isARMode s1, currentModel s1) of
             (True, Some m) \<Rightarrow>
               loadModelForCurrentMode clone (position m) (quaternion m) (scale m) s1
           | _ \<Rightarrow> loadModelForCurrentMode clone (0, 0, 0) (0, 0, 0, 1) (0.5, 0.5, 0.5) s1)"

section \<open>Hit testing (\<^verbatim>\<open>render\<close>, \<^verbatim>\<open>handleARFrame\<close>, \<^verbatim>\<open>initializeHitTesting\<close>)\<close>

text \<open>
  What \<^verbatim>\<open>frame.getHitTestResults\<close> gives in one frame: an exception, or the list of hits,
  each with the pose \<^verbatim>\<open>getPose\<close> returns for it (\<^verbatim>\<open>null\<close> is \<open>None\<close>).
\<close>

datatype hit_results = Throws | Results "(vec3 \<times> quat) option list"

definition processHitTestResults :: "hit_results \<Rightarrow> state \<Rightarrow> state" where
  "processHitTestResults r s =
     (case r of
        Throws \<Rightarrow> s\<lparr>reticleVisible := False\<rparr>
      | Results [] \<Rightarrow> s\<lparr>reticleVisible := False\<rparr>
      | Results (hit # _) \<Rightarrow>
          (case hit of
             Some pose \<Rightarrow> s\<lparr>reticleVisible := True, reticleMatrix := pose\<rparr>
           | None \<Rightarrow> s\<lparr>reticleVisible := False\<rparr>))"

text \<open>
  \<^verbatim>\<open>initializeHitTesting(session)\<close> up to its first \<^verbatim>\<open>await\<close>: the reference space is
  requested and the function suspends. The flag is not written here.
\<close>

definition initializeHitTesting :: "nat \<Rightarrow> state \<Rightarrow> state" where
  "initializeHitTesting sid s =
     s\<lparr>referenceSpaceRequests := referenceSpaceRequests s @ [sid],
       inits := (inits s)(nextRequest s \<mapsto> \<lparr>i_session = sid, i_stage = AwaitReferenceSpace\<rparr>),
       nextRequest := Suc (nextRequest s)\<rparr>"

definition handleARFrame :: "hit_results \<Rightarrow> state \<Rightarrow> state" where
  "handleARFrame r s =
     (let s1 = (case session s of
                  Some sid \<Rightarrow> if \<not> hitTestSourceRequested s then initializeHitTesting sid s else s
                | None \<Rightarrow> s)
      in if hitTestSource s1 \<noteq> None then processHitTestResults r s1 else s1)"

text \<open>
  \<^verbatim>\<open>render(timestamp, frame)\<close>; \<open>None\<close> is a frame callback without an XR frame. Advancing
  the animation mixer by the clock is left out.
\<close>

definition render :: "hit_results option \<Rightarrow> state \<Rightarrow> state" where
  "render frame s =
     (case frame of
        Some r \<Rightarrow> if isPresenting s \<and> isARMode s then handleARFrame r s else s
      | None \<Rightarrow> s)"

text \<open>The reference space arrives: the hit-test source is requested, second \<^verbatim>\<open>await\<close>.\<close>

definition onReferenceSpace :: "nat \<Rightarrow> state \<Rightarrow> state" where
  "onReferenceSpace k s =
     (case inits s k of
        None \<Rightarrow> s
      | Some i \<Rightarrow>
          if i_stage i = AwaitReferenceSpace
          then s\<lparr>hitTestSourceRequests := hitTestSourceRequests s @ [i_session i],
                 inits := (inits s)(k \<mapsto> i\<lparr>i_stage := AwaitHitTestSource\<rparr>)\<rparr>
          else s)"

text \<open>
  The hit-test source arrives: it is stored, the \<^verbatim>\<open>end\<close> listener is registered on the
  session, and only now the flag is set.
\<close>

definition onHitTestSource :: "nat \<Rightarrow> nat \<Rightarrow> state \<Rightarrow> state" where
  "onHitTestSource k src s =
     (case inits s k of
        None \<Rightarrow> s
      | Some i \<Rightarrow>
          if i_stage i = AwaitHitTestSource
          then s\<lparr>hitTestSource := Some src,
                 endListeners := endListeners s @ [i_session i],
                 hitTestSourceRequested := True,
                 inits := (inits s)(k := None)\<rparr>
          else s)"

text \<open>Either \<^verbatim>\<open>await\<close> rejects: the \<^verbatim>\<open>catch\<close> block clears the flag.\<close>

definition onInitRejected :: "nat \<Rightarrow> state \<Rightarrow> state" where
  "onInitRejected k s =
     (case inits s k of
        None \<Rightarrow> s
      | Some i \<Rightarrow> s\<lparr>hitTestSourceRequested := False, inits := (inits s)(k := None)\<rparr>)"

text \<open>\<^verbatim>\<open>onARSessionStart\<close>, with \<^verbatim>\<open>switchToARMode\<close>.\<close>

definition onARSessionStart :: "state \<Rightarrow> state" where
  "onARSessionStart s = s\<lparr>isARMode := True, status := StatusARActive\<rparr>"

text \<open>
  A write to the object that \<^verbatim>\<open>currentModel\<close> refers to; the same object may be a
  child of the scene.
\<close>

definition updateCurrentModel :: "(model \<Rightarrow> model) \<Rightarrow> state \<Rightarrow> state" where
  "updateCurrentModel f s =
     (case currentModel s of
        Some m \<Rightarrow>
          s\<lparr>currentModel := Some (f m),
            scene := map (\<lambda>x. if ident x = ident m then f x else x) (scene s)\<rparr>
      | None \<Rightarrow> s)"

definition switchToWebMode :: "state \<Rightarrow> state" where
  "switchToWebMode s =
     (updateCurrentModel (\<lambda>m. m\<lparr>position := (0, 0, 0)\<rparr>)
        (s\<lparr>isARMode := False, reticleVisible := False\<rparr>))\<lparr>status := StatusWebActive\<rparr>"

text \<open>
  \<^verbatim>\<open>onARSessionEnd\<close>: back to web mode, then \<^verbatim>\<open>position.set(0, 0, 0)\<close> and
  \<^verbatim>\<open>rotation.set(0, 0, 0)\<close>, which makes the quaternion the identity.
\<close>

definition onARSessionEnd :: "state \<Rightarrow> state" where
  "onARSessionEnd s =
     updateCurrentModel (\<lambda>m. m\<lparr>position := (0, 0, 0), quaternion := (0, 0, 0, 1)\<rparr>)
       (switchToWebMode s)"

text \<open>The \<^verbatim>\<open>end\<close> listener that \<^verbatim>\<open>initializeHitTesting\<close> registers on its session.\<close>

definition endListener :: "state \<Rightarrow> state" where
  "endListener s =
     s\<lparr>hitTestSourceRequested := False, hitTestSource := None, reticleVisible := False\<rparr>"

text \<open>
  The XR runtime starts the session \<open>sid\<close>, or ends the current one. Ending runs
  \<^verbatim>\<open>onARSessionEnd\<close> and, if one is registered on this session, the \<^verbatim>\<open>end\<close> listener.
\<close>

definition sessionStarted :: "nat \<Rightarrow> state \<Rightarrow> state" where
  "sessionStarted sid s = onARSessionStart (s\<lparr>session := Some sid, isPresenting := True\<rparr>)"

definition sessionEnded :: "state \<Rightarrow> state" where
  "sessionEnded s =
     (case session s of
        None \<Rightarrow> s
      | Some sid \<Rightarrow>
          let s1 = onARSessionEnd (s\<lparr>isPresenting := False\<rparr>);
              s2 = (if sid \<in> set (endListeners s1) then endListener s1 else s1)
          in s2\<lparr>session := None\<rparr>)"

section \<open>The event loop\<close>

datatype event =
    Select
  | ClickMode int
  | PreloadModel int
  | PreloadLoaded nat gltf
  | PreloadError nat
  | DracoLoaded nat gltf
  | DracoError nat
  | FallbackLoaded nat gltf
  | FallbackError nat
  | TimeoutFired nat
  | SessionStart nat
  | SessionEnd
  | Frame "hit_results option"
  | ReferenceSpace nat
  | HitTestSource nat nat
  | InitRejected nat

fun step :: "(model \<Rightarrow> model) \<Rightarrow> event \<Rightarrow> state \<Rightarrow> state" where
  "step clone Select s = onSelect clone s"
| "step clone (ClickMode mode) s = onClickMode clone mode s"
| "step clone (PreloadModel mode) s = preloadModel mode s"
| "step clone (PreloadLoaded k g) s = onPreloadLoaded k g s"
| "step clone (PreloadError k) s = onPreloadError k s"
| "step clone (DracoLoaded k g) s = onDracoLoaded k g s"
| "step clone (DracoError k) s = onDracoError k s"
| "step clone (FallbackLoaded k g) s = onFallbackLoaded k g s"
| "step clone (FallbackError k) s = onFallbackError k s"
| "step clone (TimeoutFired k) s = onTimeout k s"
| "step clone (SessionStart sid) s = sessionStarted sid s"
| "step clone SessionEnd s = sessionEnded s"
| "step clone (Frame f) s = render f s"
| "step clone (ReferenceSpace k) s = onReferenceSpace k s"
| "step clone (HitTestSource k src) s = onHitTestSource k src s"
| "step clone (InitRejected k) s = onInitRejected k s"

fun run :: "(model \<Rightarrow> model) \<Rightarrow> event list \<Rightarrow> state \<Rightarrow> state" where
  "run clone [] s = s"
| "run clone (e # es) s = run clone es (step clone e s)"

text \<open>
  The module-level variables as \<^verbatim>\<open>init\<close> leaves them before \<^verbatim>\<open>initializeWebMode\<close>, and
  the state after \<^verbatim>\<open>initializeWebMode\<close> on a mobile device, which requests routine 1 at the
  origin with scale 0.5.
\<close>

definition globals :: state where
  "globals =
     \<lparr>currentMode = 1, loadingModels = Map.empty, preloadedModels = Map.empty,
      currentModel = None, scene = [], isARMode = False, isPresenting = False,
      reticleVisible = False, reticleMatrix = ((0, 0, 0), (0, 0, 0, 1)),
      cameraPosition = (0, 1.6, 3), session = None, hitTestSource = None,
      hitTestSourceRequested = False, inits = Map.empty, referenceSpaceRequests = [],
      hitTestSourceRequests = [], endListeners = [], status = StatusInitial,
      statusClass = [], disposeLog = [], loaderCalls = [], loads = Map.empty,
      preloads = Map.empty, nextRequest = 0, nextIdent = 0\<rparr>"

definition initializeWebMode :: "(model \<Rightarrow> model) \<Rightarrow> state \<Rightarrow> state" where
  "initializeWebMode clone s =
     (loadModelForCurrentMode clone (0, 0, 0) (0, 0, 0, 1) (0.5, 0.5, 0.5)
        (s\<lparr>isARMode := False, reticleVisible := False\<rparr>))\<lparr>status := StatusWebActive\<rparr>"

definition started :: "(model \<Rightarrow> model) \<Rightarrow> state" where
  "started clone = initializeWebMode clone globals"

section \<open>The sibling implementation \<^verbatim>\<open>app.js\<close>\<close>

text \<open>
  \<^verbatim>\<open>app.js\<close> is the minimal variant: one loader, no preloading, no loading flags, no
  disposal. Its module-level variables carry the prefix \<open>app_\<close> here.
\<close>

datatype toast = ToastNone | ToastLoading | ToastReady | ToastError | ToastPoseChange | ToastMoved

record app_state =
  app_currentModel :: "model option"
  app_mixer :: "clip option"
  app_animations :: "clip list"
  app_scene :: "model list"
  app_reticleVisible :: bool
  app_reticleMatrix :: "vec3 \<times> quat"
  app_hitTestSource :: "nat option"
  app_hitTestSourceRequested :: bool
  app_session :: "nat option"
  app_toast :: toast
  app_loads :: "nat \<rightharpoonup> vec3 option \<times> quat option"
  app_loaderCalls :: "string list"
  app_inits :: "nat \<rightharpoonup> init"
  app_referenceSpaceRequests :: "nat list"
  app_hitTestSourceRequests :: "nat list"
  app_endListeners :: "nat list"
  app_nextRequest :: nat
  app_nextIdent :: nat

definition models :: "string list" where
  "models = [''./model/modelo-final.glb'', ''./model (2)/movimiento2.glb'',
             ''./model (3)/movimiento3.glb'']"

text \<open>
  \<^verbatim>\<open>loadModel(url, position, quaternion)\<close> up to the return of \<^verbatim>\<open>loader.load\<close>: the current
  model is taken out of the scene (and not disposed), and the loader is started with a
  callback that captures \<^verbatim>\<open>targetPos\<close> and \<^verbatim>\<open>targetQuat\<close>.
\<close>

definition loadModel :: "string \<Rightarrow> vec3 option \<Rightarrow> quat option \<Rightarrow> app_state \<Rightarrow> app_state" where
  "loadModel url pos quat s =
     (let s1 = (case app_currentModel s of
                  Some m \<Rightarrow>
                    s\<lparr>app_currentModel := None, app_mixer := None, app_animations := [],
                      app_scene := sceneRemove m (app_scene s)\<rparr>
                | None \<Rightarrow> s)
      in s1\<lparr>app_toast := ToastLoading,
            app_loaderCalls := app_loaderCalls s1 @ [url],
            app_loads := (app_loads s1)(app_nextRequest s1 \<mapsto> (pos, quat)),
            app_nextRequest := Suc (app_nextRequest s1)\<rparr>)"

text \<open>The \<^verbatim>\<open>onLoad\<close> callback of \<^verbatim>\<open>loadModel\<close>.\<close>

definition onLoad :: "nat \<Rightarrow> gltf \<Rightarrow> app_state \<Rightarrow> app_state" where
  "onLoad k g s =
     (case app_loads s k of
        None \<Rightarrow> s
      | Some (targetPos, targetQuat) \<Rightarrow>
          let m0 = (gscene g)\<lparr>ident := app_nextIdent s, scale := (0.15, 0.15, 0.15)\<rparr>;
              m1 = (case targetPos of
                      Some p \<Rightarrow>
                        (case targetQuat of
                           Some q \<Rightarrow> m0\<lparr>position := p, quaternion := q\<rparr>
                         | None \<Rightarrow> m0\<lparr>position := p\<rparr>)
                    | None \<Rightarrow>
                        if app_reticleVisible s
                        then m0\<lparr>position := fst (app_reticleMatrix s)\<rparr>
                        else m0\<lparr>position := (0, 0, - 1), visible := False\<rparr>);
              m2 = (if targetPos \<noteq> None \<or> app_reticleVisible s then m1\<lparr>visible := True\<rparr>
                    else m1)
          in s\<lparr>app_currentModel := Some m2,
               app_animations := animations g,
               app_scene := sceneAdd m2 (app_scene s),
               app_mixer := (case animations g of [] \<Rightarrow> app_mixer s | c # _ \<Rightarrow> Some c),
               app_toast := ToastReady,
               app_loads := (app_loads s)(k := None),
               app_nextIdent := Suc (app_nextIdent s)\<rparr>)"

definition onError :: "nat \<Rightarrow> app_state \<Rightarrow> app_state" where
  "onError k s =
     (case app_loads s k of
        None \<Rightarrow> s
      | Some c \<Rightarrow> s\<lparr>app_toast := ToastError, app_loads := (app_loads s)(k := None)\<rparr>)"

text \<open>The click handler of the button for \<^verbatim>\<open>models[i]\<close>.\<close>

definition onClickModel :: "nat \<Rightarrow> app_state \<Rightarrow> app_state" where
  "onClickModel i s =
     (if i < length models
      then loadModel (models ! i) (map_option position (app_currentModel s)) None s
      else s)"

text \<open>
  \<^verbatim>\<open>onSelect\<close> of \<^verbatim>\<open>app.js\<close>. \<open>intersects\<close> says whether the controller ray hits the model
  (asked only when the model is visible) and \<open>randomIndex\<close> is the index that
  \<^verbatim>\<open>Math.floor(Math.random() * models.length)\<close> draws.
\<close>

definition app_onSelect :: "bool \<Rightarrow> nat \<Rightarrow> app_state \<Rightarrow> app_state" where
  "app_onSelect intersects randomIndex s =
     (if app_currentModel s = None \<and> \<not> app_reticleVisible s then s
      else
        case (case app_currentModel s of
                Some m \<Rightarrow> if visible m \<and> intersects then Some m else None
              | None \<Rightarrow> None) of
          Some m \<Rightarrow>
            loadModel (models ! randomIndex) (Some (position m)) (Some (quaternion m))
              (s\<lparr>app_toast := ToastPoseChange\<rparr>)
        | None \<Rightarrow>
            if app_reticleVisible s then
              (case app_currentModel s of
                 Some m \<Rightarrow>
                   s\<lparr>app_currentModel :=
                       Some (m\<lparr>visible := True, position := fst (app_reticleMatrix s)\<rparr>),
                     app_scene :=
                       map (\<lambda>x. if ident x = ident m
                                then x\<lparr>visible := True, position := fst (app_reticleMatrix s)\<rparr>
                                else x) (app_scene s),
                     app_toast := ToastMoved\<rparr>
               | None \<Rightarrow> loadModel (models ! 0) None None s)
            else s)"

text \<open>
  \<^verbatim>\<open>render(timestamp, frame)\<close> of \<^verbatim>\<open>app.js\<close>. The request for the reference space, the
  \<^verbatim>\<open>end\<close> listener and the flag are all written in the same frame. Nothing is caught: a
  missing session, a throwing \<^verbatim>\<open>getHitTestResults\<close> or a \<^verbatim>\<open>null\<close> pose ends the callback
  where it stands.
\<close>

definition app_render :: "hit_results option \<Rightarrow> app_state \<Rightarrow> app_state" where
  "app_render frame s =
     (case frame of
        None \<Rightarrow> s
      | Some r \<Rightarrow>
          (case (if app_hitTestSourceRequested s then Some s
                 else (case app_session s of
                         None \<Rightarrow> None
                       | Some sid \<Rightarrow>
                           Some (s\<lparr>app_referenceSpaceRequests :=
                                      app_referenceSpaceRequests s @ [sid],
                                    app_inits := (app_inits s)(app_nextRequest s \<mapsto>
                                      \<lparr>i_session = sid, i_stage = AwaitReferenceSpace\<rparr>),
                                    app_nextRequest := Suc (app_nextRequest s),
                                    app_endListeners := app_endListeners s @ [sid],
                                    app_hitTestSourceRequested := True\<rparr>))) of
             None \<Rightarrow> s
           | Some s1 \<Rightarrow>
               (case app_hitTestSource s1 of
                  None \<Rightarrow> s1
                | Some src \<Rightarrow>
                    (case r of
                       Throws \<Rightarrow> s1
                     | Results [] \<Rightarrow> s1\<lparr>app_reticleVisible := False\<rparr>
                     | Results (hit # _) \<Rightarrow>
                         (case hit of
                            Some pose \<Rightarrow>
                              s1\<lparr>app_reticleVisible := True, app_reticleMatrix := pose\<rparr>
                          | None \<Rightarrow> s1\<lparr>app_reticleVisible := True\<rparr>)))))"

definition app_onReferenceSpace :: "nat \<Rightarrow> app_state \<Rightarrow> app_state" where
  "app_onReferenceSpace k s =
     (case app_inits s k of
        None \<Rightarrow> s
      | Some i \<Rightarrow>
          if i_stage i = AwaitReferenceSpace
          then s\<lparr>app_hitTestSourceRequests := app_hitTestSourceRequests s @ [i_session i],
                 app_inits := (app_inits s)(k \<mapsto> i\<lparr>i_stage := AwaitHitTestSource\<rparr>)\<rparr>
          else s)"

definition app_onHitTestSource :: "nat \<Rightarrow> nat \<Rightarrow> app_state \<Rightarrow> app_state" where
  "app_onHitTestSource k src s =
     (case app_inits s k of
        None \<Rightarrow> s
      | Some i \<Rightarrow>
          if i_stage i = AwaitHitTestSource
          then s\<lparr>app_hitTestSource := Some src, app_inits := (app_inits s)(k := None)\<rparr>
          else s)"

definition app_sessionStarted :: "nat \<Rightarrow> app_state \<Rightarrow> app_state" where
  "app_sessionStarted sid s = s\<lparr>app_session := Some sid\<rparr>"

text \<open>The session ends: the \<^verbatim>\<open>end\<close> listener, if registered on it, resets flag and source.\<close>

definition app_sessionEnded :: "app_state \<Rightarrow> app_state" where
  "app_sessionEnded s =
     (case app_session s of
        None \<Rightarrow> s
      | Some sid \<Rightarrow>
          (if sid \<in> set (app_endListeners s)
           then s\<lparr>app_hitTestSourceRequested := False, app_hitTestSource := None\<rparr>
           else s)\<lparr>app_session := None\<rparr>)"

datatype app_event =
    AppSelect bool nat
  | AppClickModel nat
  | AppLoaded nat gltf
  | AppError nat
  | AppSessionStart nat
  | AppSessionEnd
  | AppFrame "hit_results option"
  | AppReferenceSpace nat
  | AppHitTestSource nat nat

fun app_step :: "app_event \<Rightarrow> app_state \<Rightarrow> app_state" where
  "app_step (AppSelect intersects randomIndex) s =
     (if randomIndex < length models then app_onSelect intersects randomIndex s else s)"
| "app_step (AppClickModel i) s = onClickModel i s"
| "app_step (AppLoaded k g) s = onLoad k g s"
| "app_step (AppError k) s = onError k s"
| "app_step (AppSessionStart sid) s = app_sessionStarted sid s"
| "app_step AppSessionEnd s = app_sessionEnded s"
| "app_step (AppFrame f) s = app_render f s"
| "app_step (AppReferenceSpace k) s = app_onReferenceSpace k s"
| "app_step (AppHitTestSource k src) s = app_onHitTestSource k src s"

fun app_run :: "app_event list \<Rightarrow> app_state \<Rightarrow> app_state" where
  "app_run [] s = s"
| "app_run (e # es) s = app_run es (app_step e s)"

text \<open>The variables after \<^verbatim>\<open>init\<close>, which ends by loading \<^verbatim>\<open>models[0]\<close>.\<close>

definition app_globals :: app_state where
  "app_globals =
     \<lparr>app_currentModel = None, app_mixer = None, app_animations = [], app_scene = [],
      app_reticleVisible = False, app_reticleMatrix = ((0, 0, 0), (0, 0, 0, 1)),
      app_hitTestSource = None, app_hitTestSourceRequested = False, app_session = None,
      app_toast = ToastNone, app_loads = Map.empty, app_loaderCalls = [],
      app_inits = Map.empty, app_referenceSpaceRequests = [],
      app_hitTestSourceRequests = [], app_endListeners = [], app_nextRequest = 0,
      app_nextIdent = 0\<rparr>"

definition app_started :: app_state where
  "app_started = loadModel (models ! 0) None None app_globals"

section \<open>Concrete scenarios\<close>

text \<open>A decoded asset with one textured mesh and one animation clip.\<close>

definition asset :: "nat \<Rightarrow> gltf" where
  "asset n =
     \<lparr>gscene = \<lparr>ident = 0, tree = Object3D True n (OneMaterial (Material n (Some n))) [],
                position = (0, 0, 0), quaternion = (0, 0, 0, 1), scale = (1, 1, 1),
                visible = True, mixer = None\<rparr>,
      animations = [n]\<rparr>"

text \<open>
  A running session in which the first asset is attached, hit testing is set up and the
  last frame put the reticle on a surface at \<open>p\<close>, with the viewer at the origin.
\<close>

definition aimedAt :: "vec3 \<Rightarrow> state" where
  "aimedAt p =
     (run (\<lambda>m. m)
        [DracoLoaded 0 (asset 1), SessionStart 1, Frame (Some (Results [])),
         ReferenceSpace 1, HitTestSource 1 9,
         Frame (Some (Results [Some (p, (0, 0, 0, 1))]))]
        (started (\<lambda>m. m)))
     \<lparr>cameraPosition := (0, 0, 0)\<rparr>"

text \<open>
  A running session in which the first asset is attached, all three assets are preloaded
  and no surface has been found.
\<close>

definition allPreloaded :: state where
  "allPreloaded =
     run (\<lambda>m. m)
       [DracoLoaded 0 (asset 1),
        PreloadModel 1, PreloadLoaded 1 (asset 1),
        PreloadModel 2, PreloadLoaded 2 (asset 2),
        PreloadModel 3, PreloadLoaded 3 (asset 3),
        SessionStart 1]
       (started (\<lambda>m. m))"

text \<open>
  The condition under which \<^verbatim>\<open>onSelect\<close> takes its second branch and calls
  \<^verbatim>\<open>cycleMode\<close>: presenting, reticle hidden, a model in the slot.
\<close>

definition advanceTrigger :: "state \<Rightarrow> bool" where
  "advanceTrigger s = (isPresenting s \<and> \<not> reticleVisible s \<and> currentModel s \<noteq> None)"

text \<open>
  Routine 2 is chosen while the first request (routine 1) is still loading; then the two
  decodes arrive, the older first.
\<close>

definition doubleAttach :: "(model \<Rightarrow> model) \<Rightarrow> gltf \<Rightarrow> gltf \<Rightarrow> state" where
  "doubleAttach clone gA gB =
     run clone [ClickMode 2, DracoLoaded 0 gA, DracoLoaded 1 gB] (started clone)"

text \<open>
  Routine 2 is chosen while routine 1 is loading, routine 1 arrives, and routine 2 is chosen
  again while its first load is still in flight.
\<close>

definition sameIdTwice :: "(model \<Rightarrow> model) \<Rightarrow> gltf \<Rightarrow> state" where
  "sameIdTwice clone gA =
     run clone [ClickMode 2, DracoLoaded 0 gA, ClickMode 2] (started clone)"

text \<open>
  Routine 2 is chosen while routine 1 is loading, and the load of routine 1 then fails on
  both decode paths.
\<close>

definition failedWhileSwitched :: "(model \<Rightarrow> model) \<Rightarrow> state" where
  "failedWhileSwitched clone =
     run clone [ClickMode 2, DracoError 0, FallbackError 0] (started clone)"

text \<open>
  The first asset is attached; a swap to routine 2 is requested and fails on both decode
  paths; a repeated request for routine 1, up to its \<^verbatim>\<open>await\<close>.
\<close>

definition firstAttached :: state where
  "firstAttached = run (\<lambda>m. m) [DracoLoaded 0 (asset 1)] (started (\<lambda>m. m))"

definition failedSwap :: state where
  "failedSwap = run (\<lambda>m. m) [ClickMode 2, DracoError 1, FallbackError 1] firstAttached"

definition swapRequested :: state where
  "swapRequested =
     loadModelForCurrentMode (\<lambda>m. m) (0, 0, 0) (0, 0, 0, 1) (0.5, 0.5, 0.5) firstAttached"

text \<open>
  Load \<open>k\<close> has been issued and its promise is settled. Request numbers are handed out in
  order, so a number below \<^verbatim>\<open>nextRequest\<close> is never reused.
\<close>

definition settledLoad :: "nat \<Rightarrow> state \<Rightarrow> bool" where
  "settledLoad k s =
     (k < nextRequest s \<and> (case loads s k of Some l \<Rightarrow> l_settled l | None \<Rightarrow> False))"

section \<open>Evaluation\<close>

lemmas eval_defs =
  started_def initializeWebMode_def globals_def loadModelForCurrentMode_def
  truthy_def loadModelWithTimeout_def onClickMode_def onDracoLoaded_def resolveLoad_def
  attachModel_def finallyClear_def sceneAdd_def sceneRemove_def stamp_def MODELS_def Let_def
  onDracoError_def onFallbackError_def onFallbackLoaded_def rejectLoad_def catchError_def
  onTimeout_def preloadModel_def onPreloadLoaded_def onPreloadError_def sessionStarted_def
  onARSessionStart_def onSelect_def cycleMode_def nextMode_def js_rem_def disposeModel_def
  disposeChild_def disposeMaterial_def render_def handleARFrame_def
  initializeHitTesting_def processHitTestResults_def onReferenceSpace_def
  onHitTestSource_def onInitRejected_def asset_def

lemmas app_eval_defs =
  app_started_def app_globals_def loadModel_def onLoad_def onError_def onClickModel_def
  models_def app_render_def app_onReferenceSpace_def app_onHitTestSource_def
  app_sessionStarted_def app_sessionEnded_def sceneAdd_def sceneRemove_def Let_def

lemma currentMode_loadModelForCurrentMode:
  "currentMode (loadModelForCurrentMode clone pos quat sc s) = currentMode s"
  by (simp add: loadModelForCurrentMode_def loadModelWithTimeout_def finallyClear_def
      attachModel_def Let_def split: option.splits)

lemma nextMode_values: "nextMode 1 = 2 \<and> nextMode 2 = 3 \<and> nextMode 3 = 1"
  by (simp add: nextMode_def js_rem_def)

lemma advance_currentMode:
  "advanceTrigger s \<Longrightarrow> currentMode (onSelect clone s) = nextMode (currentMode s)"
  by (auto simp add: advanceTrigger_def onSelect_def cycleMode_def Let_def
      currentMode_loadModelForCurrentMode)

lemma distance_near: "distanceTo (0.1, 0, 0) (0, 0, 0) = 0.1"
  by (simp add: real_sqrt_divide power_divide)

lemma distance_mid: "distanceTo (3, 4, 0) (0, 0, 0) = 5"
proof -
  have "sqrt 25 = sqrt (5\<^sup>2)" by simp
  then show ?thesis by (simp del: real_sqrt_abs)
qed

lemma aimedAt_reticle:
  "isPresenting (aimedAt p) \<and> reticleVisible (aimedAt p) \<and>
   fst (reticleMatrix (aimedAt p)) = p \<and> snd (reticleMatrix (aimedAt p)) = (0, 0, 0, 1) \<and>
   cameraPosition (aimedAt p) = (0, 0, 0)"
  by (simp add: aimedAt_def eval_defs)

lemma aimedAt_slot:
  "map_option scale (currentModel (aimedAt p)) = Some (0.5, 0.5, 0.5) \<and>
   map ident (scene (aimedAt p)) = [0] \<and> length (loaderCalls (aimedAt p)) = 1"
  by (simp add: aimedAt_def eval_defs)

lemma aimedAt_forwarded: "length (loaderCalls
      (loadModelForCurrentMode (\<lambda>m. m) (3, 4, 0) (0, 0, 0, 1) (0.5, 0.5, 0.5)
        (aimedAt (3, 4, 0)))) = 2"
    by (simp add: aimedAt_def eval_defs)

lemma allPreloaded_model:
  "currentModel allPreloaded =
     Some \<lparr>ident = 0, tree = Object3D True 1 (OneMaterial (Material 1 (Some 1))) [],
            position = (0, 0, 0), quaternion = (0, 0, 0, 1), scale = (1 / 2, 1 / 2, 1 / 2),
            visible = True, mixer = Some 1\<rparr>"
  by (simp add: allPreloaded_def asset_def eval_defs)

lemma allPreloaded_advance:
  "advanceTrigger (onSelect (\<lambda>m. m) allPreloaded) \<and>
   advanceTrigger (onSelect (\<lambda>m. m) (onSelect (\<lambda>m. m) allPreloaded))"
  by (simp add: allPreloaded_def advanceTrigger_def asset_def eval_defs)

lemma firstAttached_eval:
  "\<not> truthy (loadingModels firstAttached (currentMode firstAttached)) \<and>
   currentModel firstAttached = Some ((gscene (asset 1))
     \<lparr>scale := (0.5, 0.5, 0.5), mixer := Some 1\<rparr>) \<and>
   preloadedModels firstAttached (currentMode firstAttached) = None \<and>
   map ident (scene firstAttached) = [0]"
  by (simp add: firstAttached_def eval_defs)

lemma settledLoad_loadModelForCurrentMode:
  "settledLoad k s \<Longrightarrow> settledLoad k (loadModelForCurrentMode clone pos quat sc s)"
  by (auto simp add: settledLoad_def loadModelForCurrentMode_def loadModelWithTimeout_def
      finallyClear_def attachModel_def Let_def split: option.splits)

lemma settledLoad_resolveLoad:
  "settledLoad k s \<Longrightarrow> settledLoad k (resolveLoad j g s)"
  by (auto simp add: settledLoad_def resolveLoad_def finallyClear_def attachModel_def Let_def
      split: option.splits)

lemma settledLoad_rejectLoad:
  "settledLoad k s \<Longrightarrow> settledLoad k (rejectLoad j s)"
  by (auto simp add: settledLoad_def rejectLoad_def finallyClear_def catchError_def
      split: option.splits)

lemma settledLoad_loads_update:
  "settledLoad k s \<Longrightarrow> loads s j = Some l \<Longrightarrow> l_settled l' = l_settled l \<Longrightarrow>
     settledLoad k (s\<lparr>loads := (loads s)(j \<mapsto> l')\<rparr>)"
  by (auto simp add: settledLoad_def split: option.splits)

lemma settledLoad_fields [simp]:
  "settledLoad k (s\<lparr>status := st\<rparr>) = settledLoad k s"
  "settledLoad k (s\<lparr>currentMode := cm\<rparr>) = settledLoad k s"
  by (simp_all add: settledLoad_def)

lemma settledLoad_onSelect:
  "settledLoad k s \<Longrightarrow> settledLoad k (onSelect clone s)"
  by (simp add: onSelect_def cycleMode_def Let_def settledLoad_loadModelForCurrentMode
      split: option.splits)

lemma settledLoad_onClickMode:
  "settledLoad k s \<Longrightarrow> settledLoad k (onClickMode clone m s)"
  by (simp add: onClickMode_def Let_def settledLoad_loadModelForCurrentMode
      split: option.splits bool.splits)

lemma settledLoad_onDracoLoaded:
  "settledLoad k s \<Longrightarrow> settledLoad k (onDracoLoaded j g s)"
  by (auto simp add: onDracoLoaded_def split: option.splits intro!: settledLoad_resolveLoad)
    (auto simp add: settledLoad_def split: option.splits)

lemma settledLoad_onFallbackLoaded:
  "settledLoad k s \<Longrightarrow> settledLoad k (onFallbackLoaded j g s)"
  by (auto simp add: onFallbackLoaded_def split: option.splits intro!: settledLoad_resolveLoad)
    (auto simp add: settledLoad_def split: option.splits)

lemma settledLoad_onFallbackError:
  "settledLoad k s \<Longrightarrow> settledLoad k (onFallbackError j s)"
  by (auto simp add: onFallbackError_def split: option.splits intro!: settledLoad_rejectLoad)
    (auto simp add: settledLoad_def split: option.splits)

lemma settledLoad_onTimeout:
  "settledLoad k s \<Longrightarrow> settledLoad k (onTimeout j s)"
  by (auto simp add: onTimeout_def split: option.splits intro!: settledLoad_rejectLoad)
    (auto simp add: settledLoad_def split: option.splits)

lemma settledLoad_render:
  "settledLoad k s \<Longrightarrow> settledLoad k (render f s)"
  by (auto simp add: settledLoad_def render_def handleARFrame_def initializeHitTesting_def
      processHitTestResults_def Let_def split: option.splits hit_results.splits list.splits)

lemma settledLoad_sessionEnded:
  "settledLoad k s \<Longrightarrow> settledLoad k (sessionEnded s)"
  by (auto simp add: settledLoad_def sessionEnded_def onARSessionEnd_def
      switchToWebMode_def updateCurrentModel_def endListener_def Let_def split: option.splits)

lemma settledLoad_step:
  "settledLoad k s \<Longrightarrow> settledLoad k (step clone e s)"
  by (cases e)
    (simp_all add: settledLoad_onSelect settledLoad_onClickMode settledLoad_onDracoLoaded
      settledLoad_onFallbackLoaded settledLoad_onFallbackError settledLoad_onTimeout
      settledLoad_render settledLoad_sessionEnded,
     auto simp add: settledLoad_def preloadModel_def onPreloadLoaded_def onPreloadError_def
      onDracoError_def sessionStarted_def onARSessionStart_def onReferenceSpace_def
      onHitTestSource_def onInitRejected_def Let_def split: option.splits)

lemma settledLoad_run:
  "settledLoad k s \<Longrightarrow> settledLoad k (run clone es s)"
  by (induction es arbitrary: s) (simp_all add: settledLoad_step)

lemma settled_ignores_decode:
  assumes "settledLoad k s"
  shows "scene (onDracoLoaded k g s) = scene s \<and>
         currentModel (onDracoLoaded k g s) = currentModel s \<and>
         scene (onFallbackLoaded k g s) = scene s \<and>
         currentModel (onFallbackLoaded k g s) = currentModel s"
  using assms
  by (auto simp add: settledLoad_def onDracoLoaded_def onFallbackLoaded_def resolveLoad_def
      split: option.splits)

lemma timeout_settles:
  assumes "loads s k = Some l" and "l_timer l" and "k < nextRequest s"
  shows "settledLoad k (onTimeout k s)"
  using assms
  by (auto simp add: settledLoad_def onTimeout_def rejectLoad_def finallyClear_def
      catchError_def split: option.splits)

section \<open>Single occupancy of the slot\<close>

text \<open>
  C1. The code at the failing input. Routine 2 is chosen while the load of routine 1 is in
  flight; its request passes the guard, which looks only at the flag of routine 2. When
  the two decodes arrive, each continuation runs \<^verbatim>\<open>scene.add\<close> without looking at the
  slot: the scene then holds both instances, \<^verbatim>\<open>currentModel\<close> refers to the second, and
  the first was neither removed nor disposed.
\<close>

theorem interleaved_loads_attach_two_models:
  "map ident (scene (doubleAttach clone gA gB)) = [0, 1] \<and>
   map_option ident (currentModel (doubleAttach clone gA gB)) = Some 1 \<and>
   disposeLog (doubleAttach clone gA gB) = []"
  by (simp add: doubleAttach_def eval_defs split: list.splits)

text \<open>
  When nothing else happens between a request and the arrival of its decode, the swap is
  clean: the scene is empty while the load is in flight and holds exactly the new instance,
  at the requested pose, afterwards.
\<close>

lemma sequential_swap_single_instance:
  assumes "\<not> truthy (loadingModels s (currentMode s))"
    and "preloadedModels s (currentMode s) = None"
    and "scene s = (case currentModel s of Some m \<Rightarrow> [m] | None \<Rightarrow> [])"
  shows "scene (loadModelForCurrentMode clone pos quat sc s) = [] \<and>
         currentModel (loadModelForCurrentMode clone pos quat sc s) = None \<and>
         (\<exists>m. currentModel (onDracoLoaded (nextRequest s) g
                   (loadModelForCurrentMode clone pos quat sc s)) = Some m \<and>
              scene (onDracoLoaded (nextRequest s) g
                   (loadModelForCurrentMode clone pos quat sc s)) = [m] \<and>
              position m = pos \<and> quaternion m = quat \<and> scale m = sc)"
  using assms
  by (auto simp add: loadModelForCurrentMode_def loadModelWithTimeout_def onDracoLoaded_def
      resolveLoad_def attachModel_def finallyClear_def sceneAdd_def sceneRemove_def stamp_def
      Let_def split: option.splits list.splits)

text \<open>
  \<^verbatim>\<open>app.js\<close> has no guard at all: a second \<^verbatim>\<open>loadModel\<close> while the first is loading ends
  with two instances in the scene in the same way.
\<close>

lemma app_second_load_attaches_second_model:
  "map ident (app_scene (app_run [AppClickModel 1, AppLoaded 0 gA, AppLoaded 1 gB] app_started))
     = [0, 1]"
  by (simp add: app_eval_defs)

section \<open>Failed requests\<close>

text \<open>
  C2, as stated, fails. With the first asset attached, a swap to routine 2 whose load fails
  on both decode paths ends with an empty slot and an empty scene: the asset that was
  attached before the request has been removed and disposed.
\<close>

theorem failed_load_empties_slot:
  "map ident (scene firstAttached) = [0] \<and>
   map_option ident (currentModel firstAttached) = Some 0 \<and>
   map_option l_settled (loads failedSwap 1) = Some True \<and>
   status failedSwap = StatusError 2 \<and>
   currentModel failedSwap = None \<and>
   scene failedSwap = [] \<and>
   disposeLog failedSwap = [GeometryDispose 1, TextureDispose 1, MaterialDispose 1]"
  by (simp add: failedSwap_def firstAttached_def eval_defs)

text \<open>
  C2, amended. A placement rejected for its distance leaves the slot, the scene, the
  routine, the session mode, the disposal record and the loader calls as they were. A
  request that passes the guard for a routine that is not preloaded removes the attached
  model from the scene and disposes it before the load starts. A load that fails (timer,
  or a loader error) changes neither the slot, nor the scene, nor the routine, nor the
  session mode: nothing is restored.
\<close>

theorem failed_attach_previous_state:
  "(isPresenting s \<and> reticleVisible s \<and>
    (distanceTo (fst (reticleMatrix s)) (cameraPosition s) < minDistance \<or>
     maxDistance < distanceTo (fst (reticleMatrix s)) (cameraPosition s)) \<longrightarrow>
      currentModel (onSelect clone s) = currentModel s \<and>
      scene (onSelect clone s) = scene s \<and>
      currentMode (onSelect clone s) = currentMode s \<and>
      isARMode (onSelect clone s) = isARMode s \<and>
      disposeLog (onSelect clone s) = disposeLog s \<and>
      loaderCalls (onSelect clone s) = loaderCalls s) \<and>
   (\<not> truthy (loadingModels s (currentMode s)) \<and> currentModel s = Some old \<and>
    preloadedModels s (currentMode s) = None \<longrightarrow>
      currentModel (loadModelForCurrentMode clone pos quat sc s) = None \<and>
      scene (loadModelForCurrentMode clone pos quat sc s) = sceneRemove old (scene s) \<and>
      disposeLog (loadModelForCurrentMode clone pos quat sc s)
        = disposeLog s @ disposeModel old \<and>
      currentMode (loadModelForCurrentMode clone pos quat sc s) = currentMode s \<and>
      isARMode (loadModelForCurrentMode clone pos quat sc s) = isARMode s) \<and>
   (\<forall>e \<in> {TimeoutFired k, DracoError k, FallbackError k}.
      currentModel (step clone e s) = currentModel s \<and>
      scene (step clone e s) = scene s \<and>
      currentMode (step clone e s) = currentMode s \<and>
      isARMode (step clone e s) = isARMode s \<and>
      disposeLog (step clone e s) = disposeLog s)"
proof (intro conjI)
  show "isPresenting s \<and> reticleVisible s \<and>
    (distanceTo (fst (reticleMatrix s)) (cameraPosition s) < minDistance \<or>
     maxDistance < distanceTo (fst (reticleMatrix s)) (cameraPosition s)) \<longrightarrow>
      currentModel (onSelect clone s) = currentModel s \<and>
      scene (onSelect clone s) = scene s \<and>
      currentMode (onSelect clone s) = currentMode s \<and>
      isARMode (onSelect clone s) = isARMode s \<and>
      disposeLog (onSelect clone s) = disposeLog s \<and>
      loaderCalls (onSelect clone s) = loaderCalls s"
    by (auto simp add: onSelect_def Let_def)
next
  show "\<not> truthy (loadingModels s (currentMode s)) \<and> currentModel s = Some old \<and>
    preloadedModels s (currentMode s) = None \<longrightarrow>
      currentModel (loadModelForCurrentMode clone pos quat sc s) = None \<and>
      scene (loadModelForCurrentMode clone pos quat sc s) = sceneRemove old (scene s) \<and>
      disposeLog (loadModelForCurrentMode clone pos quat sc s)
        = disposeLog s @ disposeModel old \<and>
      currentMode (loadModelForCurrentMode clone pos quat sc s) = currentMode s \<and>
      isARMode (loadModelForCurrentMode clone pos quat sc s) = isARMode s"
    by (simp add: loadModelForCurrentMode_def loadModelWithTimeout_def Let_def)
next
  show "\<forall>e \<in> {TimeoutFired k, DracoError k, FallbackError k}.
      currentModel (step clone e s) = currentModel s \<and>
      scene (step clone e s) = scene s \<and>
      currentMode (step clone e s) = currentMode s \<and>
      isARMode (step clone e s) = isARMode s \<and>
      disposeLog (step clone e s) = disposeLog s"
    by (auto simp add: onTimeout_def onDracoError_def onFallbackError_def rejectLoad_def
        finallyClear_def catchError_def split: option.splits)
qed

theorem failed_attach_previous_state_witness:
  "isPresenting (aimedAt (0.1, 0, 0)) \<and> reticleVisible (aimedAt (0.1, 0, 0)) \<and>
   distanceTo (fst (reticleMatrix (aimedAt (0.1, 0, 0)))) (cameraPosition (aimedAt (0.1, 0, 0)))
     < minDistance \<and>
   currentModel (onSelect (\<lambda>m. m) (aimedAt (0.1, 0, 0))) = currentModel (aimedAt (0.1, 0, 0)) \<and>
   scene (onSelect (\<lambda>m. m) (aimedAt (0.1, 0, 0))) = scene (aimedAt (0.1, 0, 0)) \<and>
   \<not> truthy (loadingModels firstAttached (currentMode firstAttached)) \<and>
   map ident (scene firstAttached) = [0] \<and>
   preloadedModels firstAttached (currentMode firstAttached) = None \<and>
   currentModel swapRequested = None \<and>
   scene swapRequested = [] \<and>
   disposeLog swapRequested = [GeometryDispose 1, TextureDispose 1, MaterialDispose 1] \<and>
   currentModel (step (\<lambda>m. m) (TimeoutFired 1) swapRequested) = None \<and>
   scene (step (\<lambda>m. m) (TimeoutFired 1) swapRequested) = []"
proof -
  have p: "isPresenting (aimedAt (0.1, 0, 0))" and v: "reticleVisible (aimedAt (0.1, 0, 0))"
    by (simp_all add: aimedAt_reticle)
  have d: "distanceTo (fst (reticleMatrix (aimedAt (0.1, 0, 0))))
      (cameraPosition (aimedAt (0.1, 0, 0))) < minDistance"
    by (simp add: aimedAt_reticle distance_near minDistance_def)
  note rejected = failed_attach_previous_state
    [where s = "aimedAt (0.1, 0, 0)" and clone = "\<lambda>m. m", THEN conjunct1, rule_format,
     OF conjI [OF p conjI [OF v disjI1 [OF d]]]]
  note f = firstAttached_eval
  note accepted = failed_attach_previous_state
    [where s = firstAttached and clone = "\<lambda>m. m" and pos = "(0, 0, 0)"
       and quat = "(0, 0, 0, 1)" and sc = "(0.5, 0.5, 0.5)",
     THEN conjunct2, THEN conjunct1, rule_format,
     OF conjI [OF conjunct1 [OF f] conjI [OF conjunct1 [OF conjunct2 [OF f]]
       conjunct1 [OF conjunct2 [OF conjunct2 [OF f]]]]], folded swapRequested_def]
  have e: "TimeoutFired 1 \<in> {TimeoutFired 1, DracoError 1, FallbackError 1}"
    by simp
  note failed = failed_attach_previous_state
    [where s = swapRequested and clone = "\<lambda>m. m" and k = 1,
     THEN conjunct2, THEN conjunct2, rule_format, OF e]
  have emp: "sceneRemove ((gscene (asset 1))\<lparr>scale := (0.5, 0.5, 0.5), mixer := Some 1\<rparr>)
      (scene firstAttached) = []"
    using f by (auto simp add: sceneRemove_def asset_def filter_empty_conv)
  have dl: "disposeLog firstAttached = []"
    by (simp add: firstAttached_def eval_defs)
  have dm: "disposeModel ((gscene (asset 1))\<lparr>scale := (0.5, 0.5, 0.5), mixer := Some 1\<rparr>)
      = [GeometryDispose 1, TextureDispose 1, MaterialDispose 1]"
    by (simp add: eval_defs)
  from rejected accepted failed p v d f emp dl dm show ?thesis
    by simp
qed

section \<open>One load per logical id\<close>

text \<open>
  C3. The code at the failing input. The \<^verbatim>\<open>finally\<close> block of the request for routine 1
  clears the flag of whatever routine is current when it runs, here routine 2, whose load
  is still in flight. The next request for routine 2 passes the guard and the Draco loader
  is called a second time for the same file while the first call is pending.
\<close>

theorem cleared_flag_admits_second_load:
  "loaderCalls (sameIdTwice clone gA) =
     [(Draco, MODELS 1), (Draco, MODELS 2), (Draco, MODELS 2)] \<and>
   map_option (\<lambda>l. (l_url l, l_phase l, l_settled l)) (loads (sameIdTwice clone gA) 1)
     = Some (MODELS 2, DracoPending, False) \<and>
   map_option (\<lambda>l. (l_url l, l_phase l, l_settled l)) (loads (sameIdTwice clone gA) 2)
     = Some (MODELS 2, DracoPending, False)"
  by (simp add: sameIdTwice_def eval_defs split: list.splits)

text \<open>
  \<^verbatim>\<open>preloadModel\<close> looks only at the cache of finished preloads: called for routine 1 while
  the first request for routine 1 is in flight, it starts the loader again.
\<close>

lemma preload_during_load_calls_loader_again:
  "loaderCalls (run clone [PreloadModel 1] (started clone))
     = [(Draco, MODELS 1), (Draco, MODELS 1)]"
  by (simp add: eval_defs)

section \<open>Retry after a failure\<close>

text \<open>
  C5. The code at the failing input. The load of routine 1 fails on both decode paths after
  routine 2 was chosen: \<^verbatim>\<open>finally\<close> clears the flag of routine 2 and the flag of routine 1
  stays set. A later request for routine 1 stops at the guard: choosing routine 1 again
  changes the routine and the status line and nothing else.
\<close>

theorem failed_load_leaves_flag_set:
  "loadingModels (failedWhileSwitched clone) 1 = Some True \<and>
   loadingModels (failedWhileSwitched clone) 2 = Some False \<and>
   map_option l_settled (loads (failedWhileSwitched clone) 0) = Some True \<and>
   step clone (ClickMode 1) (failedWhileSwitched clone)
     = (failedWhileSwitched clone)\<lparr>currentMode := 1, status := StatusSelected 1\<rparr>"
  by (simp add: failedWhileSwitched_def eval_defs)

text \<open>The same after a timeout.\<close>

lemma timed_out_load_leaves_flag_set:
  "loadingModels (run clone [ClickMode 2, TimeoutFired 0] (started clone)) 1 = Some True"
  by (simp add: eval_defs)

text \<open>
  When the routine is not changed while the load is in flight, the failure leaves the slot
  empty and clears the flag that the request set.
\<close>

lemma failed_load_clears_flag_when_routine_unchanged:
  assumes "\<not> truthy (loadingModels s (currentMode s))"
    and "preloadedModels s (currentMode s) = None"
  shows "loadingModels (loadModelForCurrentMode clone pos quat sc s) (currentMode s) = Some True \<and>
         loadingModels (onTimeout (nextRequest s) (loadModelForCurrentMode clone pos quat sc s))
           (currentMode s) = Some False \<and>
         currentModel (onTimeout (nextRequest s) (loadModelForCurrentMode clone pos quat sc s))
           = None \<and>
         loadingModels
           (onFallbackError (nextRequest s)
              (onDracoError (nextRequest s) (loadModelForCurrentMode clone pos quat sc s)))
           (currentMode s) = Some False"
  using assms
  by (auto simp add: loadModelForCurrentMode_def loadModelWithTimeout_def onTimeout_def
      onDracoError_def onFallbackError_def rejectLoad_def catchError_def finallyClear_def
      Let_def split: option.splits)

section \<open>Late decode results\<close>

text \<open>
  C6. The code at the failing input. Routine 2 is chosen while routine 1 is loading and
  arrives first, so the newer request holds the slot; the timer of the older request is
  still armed. When the older decode arrives, its continuation runs \<^verbatim>\<open>scene.add\<close> without
  looking at the slot: the late instance is attached, the scene holds two instances and
  the slot refers to the late one.
\<close>

theorem superseded_decode_is_attached:
  "map ident (scene (run (\<lambda>m. m) [ClickMode 2, DracoLoaded 1 (asset 2)] (started (\<lambda>m. m))))
     = [0] \<and>
   map_option tree (currentModel
      (run (\<lambda>m. m) [ClickMode 2, DracoLoaded 1 (asset 2)] (started (\<lambda>m. m))))
     = Some (tree (gscene (asset 2))) \<and>
   map_option l_timer (loads
      (run (\<lambda>m. m) [ClickMode 2, DracoLoaded 1 (asset 2)] (started (\<lambda>m. m))) 0)
     = Some True \<and>
   map ident (scene (run (\<lambda>m. m) [ClickMode 2, DracoLoaded 1 (asset 2), DracoLoaded 0 (asset 1)]
      (started (\<lambda>m. m)))) = [0, 1] \<and>
   map_option tree (currentModel
      (run (\<lambda>m. m) [ClickMode 2, DracoLoaded 1 (asset 2), DracoLoaded 0 (asset 1)]
         (started (\<lambda>m. m))))
     = Some (tree (gscene (asset 1)))"
  by (simp add: eval_defs)

text \<open>
  The timeout half of the same property does hold. Once the timer of a load has fired, a
  decode result that arrives for that load later, from either loader and after any further
  events, changes neither the scene nor the slot: the promise is settled and the instance
  is not attached.
\<close>

lemma late_decode_after_timeout_discarded:
  assumes "loads s k = Some l" and "l_timer l" and "k < nextRequest s"
  shows "\<forall>es g.
           scene (step clone (DracoLoaded k g) (run clone (TimeoutFired k # es) s))
             = scene (run clone (TimeoutFired k # es) s) \<and>
           currentModel (step clone (DracoLoaded k g) (run clone (TimeoutFired k # es) s))
             = currentModel (run clone (TimeoutFired k # es) s) \<and>
           scene (step clone (FallbackLoaded k g) (run clone (TimeoutFired k # es) s))
             = scene (run clone (TimeoutFired k # es) s) \<and>
           currentModel (step clone (FallbackLoaded k g) (run clone (TimeoutFired k # es) s))
             = currentModel (run clone (TimeoutFired k # es) s)"
proof (intro allI)
  fix es g
  have "settledLoad k (run clone (TimeoutFired k # es) s)"
    using timeout_settles [OF assms] by (simp add: settledLoad_run)
  from settled_ignores_decode [OF this, of g] show
    "scene (step clone (DracoLoaded k g) (run clone (TimeoutFired k # es) s))
             = scene (run clone (TimeoutFired k # es) s) \<and>
           currentModel (step clone (DracoLoaded k g) (run clone (TimeoutFired k # es) s))
             = currentModel (run clone (TimeoutFired k # es) s) \<and>
           scene (step clone (FallbackLoaded k g) (run clone (TimeoutFired k # es) s))
             = scene (run clone (TimeoutFired k # es) s) \<and>
           currentModel (step clone (FallbackLoaded k g) (run clone (TimeoutFired k # es) s))
             = currentModel (run clone (TimeoutFired k # es) s)"
    by simp
qed

lemma late_decode_after_timeout_discarded_at_start:
  "map_option l_timer (loads (started (\<lambda>m. m)) 0) = Some True \<and>
   0 < nextRequest (started (\<lambda>m. m)) \<and>
   scene (run (\<lambda>m. m)
            [TimeoutFired 0, ClickMode 2, DracoLoaded 1 (asset 2), DracoLoaded 0 (asset 1)]
            (started (\<lambda>m. m)))
     = scene (run (\<lambda>m. m) [TimeoutFired 0, ClickMode 2, DracoLoaded 1 (asset 2)]
                (started (\<lambda>m. m))) \<and>
   map ident (scene (run (\<lambda>m. m) [TimeoutFired 0, ClickMode 2, DracoLoaded 1 (asset 2)]
                (started (\<lambda>m. m)))) = [0]"
proof -
  obtain l where l: "loads (started (\<lambda>m. m)) 0 = Some l" and t: "l_timer l"
    by (simp add: eval_defs)
  have n: "0 < nextRequest (started (\<lambda>m. m))"
    by (simp add: eval_defs)
  have run4: "run (\<lambda>m. m)
            [TimeoutFired 0, ClickMode 2, DracoLoaded 1 (asset 2), DracoLoaded 0 (asset 1)]
            (started (\<lambda>m. m))
      = step (\<lambda>m. m) (DracoLoaded 0 (asset 1))
          (run (\<lambda>m. m) (TimeoutFired 0 # [ClickMode 2, DracoLoaded 1 (asset 2)])
             (started (\<lambda>m. m)))"
    by simp
  have one: "map ident (scene (run (\<lambda>m. m) [TimeoutFired 0, ClickMode 2, DracoLoaded 1 (asset 2)]
                (started (\<lambda>m. m)))) = [0]"
    by (simp add: eval_defs)
  from late_decode_after_timeout_discarded [OF l t n, of "\<lambda>m. m"]
  have "scene (step (\<lambda>m. m) (DracoLoaded 0 (asset 1))
          (run (\<lambda>m. m) (TimeoutFired 0 # [ClickMode 2, DracoLoaded 1 (asset 2)])
             (started (\<lambda>m. m))))
     = scene (run (\<lambda>m. m) (TimeoutFired 0 # [ClickMode 2, DracoLoaded 1 (asset 2)])
                (started (\<lambda>m. m)))"
    by blast
  with l t n one show ?thesis
    unfolding run4 by simp
qed

section \<open>Requesting the hit-test source\<close>

text \<open>
  C7. The code at the failing input. \<^verbatim>\<open>initializeHitTesting\<close> sets the flag only after
  both of its awaits, so the second frame of the session finds the flag still clear and
  calls it again: the reference space is requested twice in one session, and when both
  requests are answered the hit-test source is requested twice as well.
\<close>

theorem hit_test_source_requested_every_frame:
  "referenceSpaceRequests
     (run clone [SessionStart 1, Frame (Some (Results [])), Frame (Some (Results []))]
        (started clone)) = [1, 1] \<and>
   hitTestSourceRequested
     (run clone [SessionStart 1, Frame (Some (Results [])), Frame (Some (Results []))]
        (started clone)) = False \<and>
   hitTestSourceRequests
     (run clone [SessionStart 1, Frame (Some (Results [])), Frame (Some (Results [])),
                 ReferenceSpace 1, ReferenceSpace 2]
        (started clone)) = [1, 1]"
  by (simp add: eval_defs)

text \<open>
  \<^verbatim>\<open>app.js\<close> writes the flag in the frame that issues the request. From then on no event
  other than the end of the session issues another request, however many frames are
  rendered; the first frame of a session with a clear flag issues exactly one and
  registers the \<^verbatim>\<open>end\<close> listener, which resets flag and source when the session ends.
\<close>

lemma app_flag_blocks_request:
  "app_hitTestSourceRequested s \<Longrightarrow>
     app_referenceSpaceRequests (app_render f s) = app_referenceSpaceRequests s \<and>
     app_hitTestSourceRequested (app_render f s)"
  by (auto simp add: app_render_def split: option.splits hit_results.splits list.splits)

lemma app_step_keeps_flag:
  "app_hitTestSourceRequested s \<Longrightarrow> e \<noteq> AppSessionEnd \<Longrightarrow>
     app_referenceSpaceRequests (app_step e s) = app_referenceSpaceRequests s \<and>
     app_hitTestSourceRequested (app_step e s)"
  by (cases e)
    (auto simp add: app_flag_blocks_request app_onSelect_def onClickModel_def loadModel_def
      onLoad_def onError_def app_sessionStarted_def app_onReferenceSpace_def
      app_onHitTestSource_def Let_def split: option.splits)

lemma app_requested_once:
  "app_hitTestSourceRequested s \<Longrightarrow> AppSessionEnd \<notin> set es \<Longrightarrow>
     app_referenceSpaceRequests (app_run es s) = app_referenceSpaceRequests s \<and>
     app_hitTestSourceRequested (app_run es s)"
proof (induction es arbitrary: s)
  case Nil
  then show ?case by simp
next
  case (Cons e es)
  from Cons.prems have e: "e \<noteq> AppSessionEnd" and es: "AppSessionEnd \<notin> set es"
    by auto
  from app_step_keeps_flag [OF Cons.prems(1) e] Cons.IH [OF _ es, of "app_step e s"]
  show ?case by simp
qed

lemma app_first_frame_requests:
  "\<not> app_hitTestSourceRequested s \<Longrightarrow> app_session s = Some sid \<Longrightarrow>
     app_referenceSpaceRequests (app_render (Some r) s) = app_referenceSpaceRequests s @ [sid] \<and>
     app_hitTestSourceRequested (app_render (Some r) s) \<and>
     sid \<in> set (app_endListeners (app_render (Some r) s))"
  by (auto simp add: app_render_def split: option.splits hit_results.splits list.splits)

lemma app_session_end_resets:
  "app_session s = Some sid \<Longrightarrow> sid \<in> set (app_endListeners s) \<Longrightarrow>
     \<not> app_hitTestSourceRequested (app_sessionEnded s) \<and>
     app_hitTestSource (app_sessionEnded s) = None"
  by (simp add: app_sessionEnded_def)

section \<open>Cached assets\<close>

text \<open>
  A request for a preloaded routine that passes the guard does not call the loader and
  does not write the cache: it attaches the object that \<^verbatim>\<open>gltf.scene.clone()\<close> returns, as
  a new object, with the requested pose. Which geometries, materials and textures that
  object shares with the cached one is decided by the rendering library.
\<close>

lemma cached_request_attaches_clone:
  assumes "\<not> truthy (loadingModels s (currentMode s))"
    and "preloadedModels s (currentMode s) = Some g"
  shows "loaderCalls (loadModelForCurrentMode clone pos quat sc s) = loaderCalls s \<and>
         preloadedModels (loadModelForCurrentMode clone pos quat sc s) = preloadedModels s \<and>
         map_option ident (currentModel (loadModelForCurrentMode clone pos quat sc s))
           = Some (nextIdent s) \<and>
         map_option tree (currentModel (loadModelForCurrentMode clone pos quat sc s))
           = Some (tree (clone (gscene g))) \<and>
         map_option position (currentModel (loadModelForCurrentMode clone pos quat sc s))
           = Some pos"
  using assms
  by (auto simp add: loadModelForCurrentMode_def finallyClear_def attachModel_def Let_def
      split: option.splits list.splits)

section \<open>Coalesced requests\<close>

text \<open>
  C10. A call of \<^verbatim>\<open>loadModelForCurrentMode\<close> made while the loading flag of the current
  logical id is set returns at the guard: the state after the call is the state before it,
  so the attached model and its pose, the scene, the disposal record, the loader calls and
  the mixer are all untouched.
\<close>

theorem coalesced_request_is_noop:
  "truthy (loadingModels s (currentMode s)) \<Longrightarrow>
     loadModelForCurrentMode clone pos quat sc s = s"
  by (simp add: loadModelForCurrentMode_def)

theorem coalesced_request_is_noop_witness:
  "truthy (loadingModels (started (\<lambda>m. m)) (currentMode (started (\<lambda>m. m)))) \<and>
   loadModelForCurrentMode (\<lambda>m. m) (1, 2, 3) (0, 0, 0, 1) (1, 1, 1) (started (\<lambda>m. m))
     = started (\<lambda>m. m)"
proof -
  have h: "truthy (loadingModels (started (\<lambda>m. m)) (currentMode (started (\<lambda>m. m))))"
    by (simp add: started_def initializeWebMode_def globals_def loadModelForCurrentMode_def
        loadModelWithTimeout_def truthy_def Let_def)
  from h coalesced_request_is_noop [OF h] show ?thesis by simp
qed

section \<open>Placement range\<close>

text \<open>
  C9. A select trigger in a running session with the reticle visible checks the distance
  between the reticle and the viewer against the range from 0.5 to 10 before it writes
  anything. Below the minimum, or above the maximum, only the status line changes (the
  reason shown to the user): the slot, the model's transform and the scene stay as they
  were. Inside the range the trigger is forwarded to \<^verbatim>\<open>loadModelForCurrentMode\<close> with
  the reticle's position and orientation and the current model's scale (the default scale
  when the slot is empty).
\<close>

theorem placement_distance_validated:
  assumes "isPresenting s" and "reticleVisible s"
  shows "minDistance = 0.5 \<and> maxDistance = 10 \<and>
    (distanceTo (fst (reticleMatrix s)) (cameraPosition s) < minDistance \<longrightarrow>
       onSelect clone s = s\<lparr>status := StatusTooClose\<rparr>) \<and>
    (distanceTo (fst (reticleMatrix s)) (cameraPosition s) > maxDistance \<longrightarrow>
       onSelect clone s = s\<lparr>status := StatusTooFar\<rparr>) \<and>
    (minDistance \<le> distanceTo (fst (reticleMatrix s)) (cameraPosition s) \<and>
     distanceTo (fst (reticleMatrix s)) (cameraPosition s) \<le> maxDistance \<longrightarrow>
       onSelect clone s =
         (loadModelForCurrentMode clone (fst (reticleMatrix s)) (snd (reticleMatrix s))
            (case currentModel s of Some m \<Rightarrow> scale m | None \<Rightarrow> defaultScale) s)
         \<lparr>status := StatusPlaced\<rparr>)"
  using assms by (simp add: onSelect_def minDistance_def maxDistance_def Let_def)

theorem placement_distance_validated_witness:
  "isPresenting (aimedAt (0.1, 0, 0)) \<and> reticleVisible (aimedAt (0.1, 0, 0)) \<and>
   distanceTo (fst (reticleMatrix (aimedAt (0.1, 0, 0)))) (cameraPosition (aimedAt (0.1, 0, 0)))
     = 0.1 \<and>
   onSelect (\<lambda>m. m) (aimedAt (0.1, 0, 0)) = (aimedAt (0.1, 0, 0))\<lparr>status := StatusTooClose\<rparr> \<and>
   isPresenting (aimedAt (3, 4, 0)) \<and> reticleVisible (aimedAt (3, 4, 0)) \<and>
   distanceTo (fst (reticleMatrix (aimedAt (3, 4, 0)))) (cameraPosition (aimedAt (3, 4, 0)))
     = 5 \<and>
   onSelect (\<lambda>m. m) (aimedAt (3, 4, 0)) =
     (loadModelForCurrentMode (\<lambda>m. m) (3, 4, 0) (0, 0, 0, 1) (0.5, 0.5, 0.5)
        (aimedAt (3, 4, 0)))\<lparr>status := StatusPlaced\<rparr> \<and>
   length (loaderCalls (onSelect (\<lambda>m. m) (aimedAt (3, 4, 0)))) = 2"
proof -
  have p1: "isPresenting (aimedAt (0.1, 0, 0))" and v1: "reticleVisible (aimedAt (0.1, 0, 0))"
    and p2: "isPresenting (aimedAt (3, 4, 0))" and v2: "reticleVisible (aimedAt (3, 4, 0))"
    by (simp_all add: aimedAt_reticle)
  have d1: "distanceTo (fst (reticleMatrix (aimedAt (0.1, 0, 0))))
      (cameraPosition (aimedAt (0.1, 0, 0))) = 0.1"
    by (simp only: aimedAt_reticle distance_near)
  have d2: "distanceTo (fst (reticleMatrix (aimedAt (3, 4, 0))))
      (cameraPosition (aimedAt (3, 4, 0))) = 5"
    by (simp only: aimedAt_reticle distance_mid)
  have near: "onSelect (\<lambda>m. m) (aimedAt (0.1, 0, 0))
      = (aimedAt (0.1, 0, 0))\<lparr>status := StatusTooClose\<rparr>"
    using placement_distance_validated
      [OF p1 v1, of "\<lambda>m. m", THEN conjunct2, THEN conjunct2, THEN conjunct1]
    unfolding d1 by (simp add: minDistance_def)
  have sc: "(case currentModel (aimedAt (3, 4, 0)) of Some m \<Rightarrow> scale m | None \<Rightarrow> defaultScale)
      = (0.5, 0.5, 0.5)"
    using aimedAt_slot [of "(3, 4, 0)"] by (auto split: option.splits)
  have mid: "onSelect (\<lambda>m. m) (aimedAt (3, 4, 0)) =
     (loadModelForCurrentMode (\<lambda>m. m) (3, 4, 0) (0, 0, 0, 1) (0.5, 0.5, 0.5)
        (aimedAt (3, 4, 0)))\<lparr>status := StatusPlaced\<rparr>"
    using placement_distance_validated
      [OF p2 v2, of "\<lambda>m. m", THEN conjunct2, THEN conjunct2, THEN conjunct2, THEN conjunct2]
    unfolding d2 sc by (simp add: minDistance_def maxDistance_def aimedAt_reticle)
  have n: "length (loaderCalls (onSelect (\<lambda>m. m) (aimedAt (3, 4, 0)))) = 2"
    unfolding mid using aimedAt_forwarded by simp
  show ?thesis
    by (intro conjI) (rule p1, rule v1, rule d1, rule near, rule p2, rule v2, rule d2,
        rule mid, rule n)
qed

section \<open>Cycling through the assets\<close>

text \<open>
  C8. A select trigger in a running session while the reticle is hidden and a model is
  attached advances the logical id by \<^verbatim>\<open>(currentMode % 3) + 1\<close>, so 1, 2, 3 follow each
  other and 3 wraps to 1: three such triggers from asset 1 pass through 2 and 3 and come
  back to 1. Each trigger calls \<^verbatim>\<open>loadModelForCurrentMode\<close> with the position, orientation
  and scale of the model that is attached; when the request is not coalesced, a preloaded
  asset is attached at once with that pose, and any other asset is requested from the
  loader with that pose captured.
\<close>

theorem advance_trigger_cycles_assets:
  assumes "isPresenting s" and "\<not> reticleVisible s" and "currentModel s = Some m"
  shows
    "onSelect clone s =
       loadModelForCurrentMode clone (position m) (quaternion m) (scale m)
         (s\<lparr>currentMode := nextMode (currentMode s),
            status := StatusCycling (nextMode (currentMode s))\<rparr>) \<and>
     currentMode (onSelect clone s) = nextMode (currentMode s) \<and>
     nextMode 1 = 2 \<and> nextMode 2 = 3 \<and> nextMode 3 = 1 \<and>
     (currentMode s = 1 \<and> advanceTrigger (onSelect clone s) \<and>
      advanceTrigger (onSelect clone (onSelect clone s)) \<longrightarrow>
        currentMode (onSelect clone s) = 2 \<and>
        currentMode (onSelect clone (onSelect clone s)) = 3 \<and>
        currentMode (onSelect clone (onSelect clone (onSelect clone s))) = 1) \<and>
     (\<not> truthy (loadingModels s (nextMode (currentMode s))) \<longrightarrow>
        (case preloadedModels s (nextMode (currentMode s)) of
           Some g \<Rightarrow>
             (\<exists>m'. currentModel (onSelect clone s) = Some m' \<and>
                    position m' = position m \<and> quaternion m' = quaternion m \<and>
                    scale m' = scale m \<and> ident m' = nextIdent s \<and>
                    scene (onSelect clone s) = sceneAdd m' (sceneRemove m (scene s)))
         | None \<Rightarrow>
             (\<exists>l. loads (onSelect clone s) (nextRequest s) = Some l \<and>
                   l_position l = position m \<and> l_quaternion l = quaternion m \<and>
                   l_scale l = scale m \<and> l_url l = MODELS (nextMode (currentMode s)))))"
proof -
  have sel: "onSelect clone s =
       loadModelForCurrentMode clone (position m) (quaternion m) (scale m)
         (s\<lparr>currentMode := nextMode (currentMode s),
            status := StatusCycling (nextMode (currentMode s))\<rparr>)"
    using assms by (simp add: onSelect_def cycleMode_def Let_def)
  have adv: "advanceTrigger s"
    using assms by (simp add: advanceTrigger_def)
  have three: "currentMode s = 1 \<and> advanceTrigger (onSelect clone s) \<and>
      advanceTrigger (onSelect clone (onSelect clone s)) \<longrightarrow>
        currentMode (onSelect clone s) = 2 \<and>
        currentMode (onSelect clone (onSelect clone s)) = 3 \<and>
        currentMode (onSelect clone (onSelect clone (onSelect clone s))) = 1"
    using adv by (simp add: advance_currentMode nextMode_values)
  have pose: "\<not> truthy (loadingModels s (nextMode (currentMode s))) \<longrightarrow>
        (case preloadedModels s (nextMode (currentMode s)) of
           Some g \<Rightarrow>
             (\<exists>m'. currentModel (onSelect clone s) = Some m' \<and>
                    position m' = position m \<and> quaternion m' = quaternion m \<and>
                    scale m' = scale m \<and> ident m' = nextIdent s \<and>
                    scene (onSelect clone s) = sceneAdd m' (sceneRemove m (scene s)))
         | None \<Rightarrow>
             (\<exists>l. loads (onSelect clone s) (nextRequest s) = Some l \<and>
                   l_position l = position m \<and> l_quaternion l = quaternion m \<and>
                   l_scale l = scale m \<and> l_url l = MODELS (nextMode (currentMode s))))"
    unfolding sel using assms
    by (auto simp add: loadModelForCurrentMode_def loadModelWithTimeout_def finallyClear_def
        attachModel_def Let_def split: option.splits list.splits)
  have cm: "currentMode (onSelect clone s) = nextMode (currentMode s)"
    using adv by (rule advance_currentMode)
  have n1: "nextMode 1 = 2" and n2: "nextMode 2 = 3" and n3: "nextMode 3 = 1"
    using nextMode_values by simp_all
  show ?thesis
    by (intro conjI) (rule sel, rule cm, rule n1, rule n2, rule n3, rule three, rule pose)
qed

theorem advance_trigger_cycles_assets_witness:
  "isPresenting allPreloaded \<and> \<not> reticleVisible allPreloaded \<and>
   currentMode allPreloaded = 1 \<and>
   advanceTrigger (onSelect (\<lambda>m. m) allPreloaded) \<and>
   advanceTrigger (onSelect (\<lambda>m. m) (onSelect (\<lambda>m. m) allPreloaded)) \<and>
   currentMode (onSelect (\<lambda>m. m) allPreloaded) = 2 \<and>
   currentMode (onSelect (\<lambda>m. m) (onSelect (\<lambda>m. m) allPreloaded)) = 3 \<and>
   currentMode (onSelect (\<lambda>m. m) (onSelect (\<lambda>m. m) (onSelect (\<lambda>m. m) allPreloaded))) = 1 \<and>
   (\<exists>m'. currentModel (onSelect (\<lambda>m. m) allPreloaded) = Some m' \<and>
      position m' = (0, 0, 0) \<and> quaternion m' = (0, 0, 0, 1) \<and>
      scale m' = (1 / 2, 1 / 2, 1 / 2))"
proof -
  have h: "isPresenting allPreloaded \<and> \<not> reticleVisible allPreloaded \<and>
      currentMode allPreloaded = 1"
    by (simp add: allPreloaded_def eval_defs)
  have free: "\<not> truthy (loadingModels allPreloaded (nextMode (currentMode allPreloaded)))"
    by (simp add: allPreloaded_def eval_defs)
  have pre: "preloadedModels allPreloaded (nextMode (currentMode allPreloaded)) \<noteq> None"
    by (simp add: allPreloaded_def eval_defs)
  note t = advance_trigger_cycles_assets
    [of allPreloaded _ "\<lambda>m. m", OF conjunct1 [OF h] conjunct1 [OF conjunct2 [OF h]]
      allPreloaded_model]
  from t h free pre allPreloaded_advance show ?thesis
    by (auto split: option.splits)
qed

end
